theory Spec2Isabelle
  imports Complex_Main "HOL-Library.Sublist"
begin

section \<open>JavaScript values\<close>

text \<open>
  The handler of \<^verbatim>\<open>razorpay.js\<close> reads its request body after JSON parsing and the
  course document as the document store returns it, so both hold arbitrary JSON-like
  values. Numbers are the finite values (kept exact, as rationals), the two infinities
  and NaN; the two zeros are not distinguished, since nothing in the handler tells them
  apart.
\<close>

datatype jsnum = Fin rat | NaN | PosInf | NegInf

datatype jsval =
    JUndefined
  | JNull
  | JBool bool
  | JNum jsnum
  | JStr string
  | JArr "jsval list"
  | JObj "(string \<times> jsval) list"

text \<open>\<^verbatim>\<open>!v\<close> is \<open>\<not> truthy v\<close>: undefined, null, false, 0, NaN and the empty string are falsy.\<close>

fun truthy :: "jsval \<Rightarrow> bool" where
  "truthy JUndefined = False"
| "truthy JNull = False"
| "truthy (JBool b) = b"
| "truthy (JNum (Fin q)) = (q \<noteq> 0)"
| "truthy (JNum NaN) = False"
| "truthy (JNum PosInf) = True"
| "truthy (JNum NegInf) = True"
| "truthy (JStr s) = (s \<noteq> [])"
| "truthy (JArr xs) = True"
| "truthy (JObj kvs) = True"

text \<open>The \<^verbatim>\<open>typeof\<close> operator.\<close>

fun typeof :: "jsval \<Rightarrow> string" where
  "typeof JUndefined = ''undefined''"
| "typeof JNull = ''object''"
| "typeof (JBool b) = ''boolean''"
| "typeof (JNum n) = ''number''"
| "typeof (JStr s) = ''string''"
| "typeof (JArr xs) = ''object''"
| "typeof (JObj kvs) = ''object''"

text \<open>
  Reading a named property, as the destructuring \<^verbatim>\<open>const { action } = req.body\<close> does for
  each name. The names the handler reads are no property of an array, a string, a number
  or a boolean, so every value but an object with that key gives undefined. Reading from
  null or undefined throws; the handler's dispatch treats that case before it reads.
\<close>

fun get_prop :: "jsval \<Rightarrow> string \<Rightarrow> jsval" where
  "get_prop (JObj kvs) k = (case map_of kvs k of Some v \<Rightarrow> v | None \<Rightarrow> JUndefined)"
| "get_prop v k = JUndefined"

text \<open>\<^verbatim>\<open>a || b\<close>\<close>

definition js_or :: "jsval \<Rightarrow> jsval \<Rightarrow> jsval" where
  "js_or a b = (if truthy a then a else b)"

text \<open>
  The language runtime's conversions between numbers and strings are parameters of the
  model: \<open>Number_toString\<close> is \<^verbatim>\<open>Number.prototype.toString\<close> and \<open>StringToNumber\<close> the
  conversion of a string to a number.
\<close>

record runtime =
  Number_toString :: "jsnum \<Rightarrow> string"
  StringToNumber :: "string \<Rightarrow> jsnum"

fun join_comma :: "string list \<Rightarrow> string" where
  "join_comma [] = []"
| "join_comma [s] = s"
| "join_comma (s # t # ss) = s @ '','' @ join_comma (t # ss)"

text \<open>
  Conversion to a string, as string concatenation applies it to an operand: an array is
  joined with commas (null and undefined elements give the empty string), a plain object
  is \<^verbatim>\<open>[object Object]\<close>.
\<close>

fun ToString :: "runtime \<Rightarrow> jsval \<Rightarrow> string" where
  "ToString rt JUndefined = ''undefined''"
| "ToString rt JNull = ''null''"
| "ToString rt (JBool b) = (if b then ''true'' else ''false'')"
| "ToString rt (JNum n) = Number_toString rt n"
| "ToString rt (JStr s) = s"
| "ToString rt (JArr xs) =
     join_comma (map (\<lambda>x. if x = JUndefined \<or> x = JNull then [] else ToString rt x) xs)"
| "ToString rt (JObj kvs) = ''[object Object]''"

text \<open>Conversion to a number, as the comparison \<^verbatim>\<open>amount < 100\<close> applies it.\<close>

fun ToNumber :: "runtime \<Rightarrow> jsval \<Rightarrow> jsnum" where
  "ToNumber rt JUndefined = NaN"
| "ToNumber rt JNull = Fin 0"
| "ToNumber rt (JBool b) = Fin (if b then 1 else 0)"
| "ToNumber rt (JNum n) = n"
| "ToNumber rt (JStr s) = StringToNumber rt s"
| "ToNumber rt (JArr xs) = StringToNumber rt (ToString rt (JArr xs))"
| "ToNumber rt (JObj kvs) = StringToNumber rt (ToString rt (JObj kvs))"

text \<open>\<^verbatim>\<open><\<close> on numbers: false as soon as one side is NaN.\<close>

fun num_less :: "jsnum \<Rightarrow> jsnum \<Rightarrow> bool" where
  "num_less NaN y = False"
| "num_less x NaN = False"
| "num_less (Fin a) (Fin b) = (a < b)"
| "num_less (Fin a) PosInf = True"
| "num_less (Fin a) NegInf = False"
| "num_less PosInf y = False"
| "num_less NegInf NegInf = False"
| "num_less NegInf y = True"

text \<open>\<^verbatim>\<open>v < 100\<close>: the right operand is a number, so the left one is converted to a number.\<close>

definition less_100 :: "runtime \<Rightarrow> jsval \<Rightarrow> bool" where
  "less_100 rt v = num_less (ToNumber rt v) (Fin 100)"

text \<open>
  \<^verbatim>\<open>Array.prototype.includes\<close> compares with SameValueZero: primitives by value (NaN equal
  to itself), objects by identity. A value parsed from the request body and a value read
  from the store are never the same object.
\<close>

fun same_value_zero :: "jsval \<Rightarrow> jsval \<Rightarrow> bool" where
  "same_value_zero (JArr xs) y = False"
| "same_value_zero (JObj kvs) y = False"
| "same_value_zero x y = (x = y)"

fun string_includes :: "string \<Rightarrow> string \<Rightarrow> bool" where
  "string_includes [] n = (n = [])"
| "string_includes (c # cs) n = (prefix n (c # cs) \<or> string_includes cs n)"

text \<open>
  \<^verbatim>\<open>enrolledUsers.includes(userId)\<close>: a membership test on an array, a substring test on a
  string, and a TypeError on any other truthy value (it has no \<^verbatim>\<open>includes\<close> method).
\<close>

fun js_includes :: "runtime \<Rightarrow> jsval \<Rightarrow> jsval \<Rightarrow> string + bool" where
  "js_includes rt (JArr xs) v = Inr (list_ex (\<lambda>x. same_value_zero x v) xs)"
| "js_includes rt (JStr s) v = Inr (string_includes s (ToString rt v))"
| "js_includes rt e v = Inl ''enrolledUsers.includes is not a function''"

section \<open>Rendering the clock value\<close>

text \<open>
  \<^verbatim>\<open>Date.now()\<close> is an integral number of milliseconds; inside the template literal
  \<^verbatim>\<open>`rcpt_${Date.now()}`\<close> it is written in decimal.
\<close>

definition digit_char :: "nat \<Rightarrow> char" where
  "digit_char d = ''0123456789'' ! d"

function digits :: "nat \<Rightarrow> string" where
  "digits n = (if n < 10 then [digit_char n] else digits (n div 10) @ [digit_char (n mod 10)])"
  by pat_completeness auto
termination
  by (relation "measure (\<lambda>n. n)") auto

declare digits.simps [simp del]

definition decimal :: "int \<Rightarrow> string" where
  "decimal i = (if i < 0 then CHR ''-'' # digits (nat (- i)) else digits (nat i))"

definition receiptId :: "int \<Rightarrow> string" where
  "receiptId now = ''rcpt_'' @ decimal now"

section \<open>The collaborators\<close>

text \<open>
  The argument of \<^verbatim>\<open>instance.orders.create\<close>, the order the provider resolves with (the
  handler reads its \<^verbatim>\<open>id\<close>, \<^verbatim>\<open>amount\<close> and \<^verbatim>\<open>currency\<close>) and the error it rejects
  with (the handler reads its \<^verbatim>\<open>error\<close> and \<^verbatim>\<open>message\<close>).
\<close>

record order_options =
  opt_amount :: jsval
  opt_currency :: jsval
  opt_receipt :: string
  opt_notes_courseId :: jsval
  opt_notes_userId :: jsval

record order =
  order_id :: jsval
  order_amount :: jsval
  order_currency :: jsval

record provider_error =
  err_error :: jsval
  err_message :: jsval

text \<open>The document handed to \<^verbatim>\<open>db.collection('enrollments').add\<close>.\<close>

datatype field_value = ServerTimestamp

record enrollment =
  e_userId :: jsval
  e_courseId :: jsval
  e_courseTitle :: jsval
  e_paymentId :: jsval
  e_orderId :: jsval
  e_amount :: jsval
  e_currency :: string
  e_enrollmentType :: string
  e_enrolledAt :: field_value
  e_status :: string

text \<open>
  The document store: the \<^verbatim>\<open>courses\<close> collection maps a document id to the document's
  fields, the \<^verbatim>\<open>enrollments\<close> collection is the list of documents added so far.
\<close>

record store =
  courses :: "jsval \<rightharpoonup> (string \<rightharpoonup> jsval)"
  enrollments :: "enrollment list"

text \<open>What a run of the handler asks of its collaborators, in the order it asks.\<close>

datatype effect =
    ProviderCreate order_options
  | StoreGet jsval
  | StoreUpdate jsval jsval
  | StoreAdd enrollment

text \<open>
  Everything the handler finds around it: the two environment variables (absent or a
  string), whether the provider client's constructor throws, the clock, the provider's
  answer to an order, the keyed hash of \<^verbatim>\<open>crypto\<close>, the language runtime, and which
  store operations throw (with the error's message), be it the store that fails or the
  client library that refuses an argument. A store operation that throws changes
  nothing.
\<close>

record world =
  RAZORPAY_KEY_ID :: "string option"
  RAZORPAY_KEY_SECRET :: "string option"
  Razorpay_throws :: bool
  Date_now :: int
  orders_create :: "order_options \<Rightarrow> provider_error + order"
  hmac_sha256_hex :: "string \<Rightarrow> string \<Rightarrow> string"
  js :: runtime
  store_fault :: "effect \<Rightarrow> string option"

text \<open>Truthiness of an environment variable: set and not empty.\<close>

fun env_truthy :: "string option \<Rightarrow> bool" where
  "env_truthy None = False"
| "env_truthy (Some s) = (s \<noteq> [])"

text \<open>
  The module-level \<^verbatim>\<open>instance\<close>: created when both keys are truthy and the constructor
  does not throw, left undefined otherwise.
\<close>

definition razorpay_instance :: "world \<Rightarrow> bool" where
  "razorpay_instance w =
     (if env_truthy (RAZORPAY_KEY_ID w) \<and> env_truthy (RAZORPAY_KEY_SECRET w)
      then \<not> Razorpay_throws w else False)"

text \<open>
  \<^verbatim>\<open>FieldValue.arrayUnion(userId)\<close> applied to a field: an array gains the value unless it
  holds it already, any other field content is replaced by the one-element array.
\<close>

fun arrayUnion :: "jsval option \<Rightarrow> jsval \<Rightarrow> jsval" where
  "arrayUnion (Some (JArr xs)) v = JArr (if v \<in> set xs then xs else xs @ [v])"
| "arrayUnion f v = JArr [v]"

definition update_enrolledUsers :: "store \<Rightarrow> jsval \<Rightarrow> jsval \<Rightarrow> store" where
  "update_enrolledUsers st cid v =
     (case courses st cid of
        None \<Rightarrow> st
      | Some d \<Rightarrow>
          st\<lparr>courses := (courses st)(cid \<mapsto> d(''enrolledUsers'' \<mapsto> arrayUnion (d ''enrolledUsers'') v))\<rparr>)"

definition add_enrollment :: "store \<Rightarrow> enrollment \<Rightarrow> store" where
  "add_enrollment st r = st\<lparr>enrollments := enrollments st @ [r]\<rparr>"

text \<open>Reading a field of a document snapshot's data: undefined when the field is absent.\<close>

definition field :: "(string \<rightharpoonup> jsval) \<Rightarrow> string \<Rightarrow> jsval" where
  "field d k = (case d k of Some v \<Rightarrow> v | None \<Rightarrow> JUndefined)"

section \<open>Requests, responses and runs\<close>

record request =
  req_method :: string
  body :: jsval

record response =
  statusCode :: nat
  headers :: "(string \<times> string) list"
  json_body :: "jsval option"

text \<open>A run ends with a response, or with an exception that leaves the handler.\<close>

datatype outcome = Responded response | Rejected string

record run =
  outcome :: outcome
  effects :: "effect list"
  final_store :: store

definition cors_headers :: "(string \<times> string) list" where
  "cors_headers =
     [(''Access-Control-Allow-Origin'', ''https://edusource-e-learning.vercel.app/''),
      (''Access-Control-Allow-Methods'', ''GET, POST, OPTIONS''),
      (''Access-Control-Allow-Headers'', ''Content-Type, Authorization''),
      (''Access-Control-Allow-Credentials'', ''true'')]"

text \<open>\<^verbatim>\<open>res.status(code).json(obj)\<close> and \<^verbatim>\<open>res.status(code).end()\<close>\<close>

definition json :: "nat \<Rightarrow> jsval \<Rightarrow> outcome" where
  "json code obj = Responded \<lparr>statusCode = code, headers = cors_headers, json_body = Some obj\<rparr>"

definition end_response :: "nat \<Rightarrow> outcome" where
  "end_response code = Responded \<lparr>statusCode = code, headers = cors_headers, json_body = None\<rparr>"

definition finish :: "outcome \<Rightarrow> effect list \<Rightarrow> store \<Rightarrow> run" where
  "finish out es st = \<lparr>outcome = out, effects = es, final_store = st\<rparr>"

section \<open>The handler\<close>

text \<open>
  The source file holds these seven bytes where the currency sign of the message
  \<^verbatim>\<open>Amount must be at least ...1 (100 paisa).\<close> stands.
\<close>

definition currency_sign :: string where
  "currency_sign = [CHR 0xC3, CHR 0xA2, CHR 0xE2, CHR 0x80, CHR 0x9A, CHR 0xC2, CHR 0xB9]"

text \<open>The branch \<^verbatim>\<open>action === 'create_order'\<close>.\<close>

definition create_order :: "world \<Rightarrow> store \<Rightarrow> jsval \<Rightarrow> run" where
  "create_order w st b =
     (let amount = get_prop b ''amount'';
          currency = get_prop b ''currency'';
          courseId = get_prop b ''courseId'';
          userId = get_prop b ''userId''
      in
      if \<not> truthy amount \<or> \<not> truthy currency \<or> \<not> truthy courseId \<or> \<not> truthy userId then
        finish (json 400 (JObj [(''success'', JBool False),
                                (''error'', JStr ''Missing required details for order creation.'')])) [] st
      else if less_100 (js w) amount then
        finish (json 400 (JObj [(''success'', JBool False),
                                (''error'', JStr (''Amount must be at least '' @ currency_sign @ ''1 (100 paisa).''))])) [] st
      else
        (let options = \<lparr>opt_amount = amount, opt_currency = currency,
                          opt_receipt = receiptId (Date_now w),
                          opt_notes_courseId = courseId, opt_notes_userId = userId\<rparr>
         in
         case orders_create w options of
           Inr order \<Rightarrow>
             finish (json 200 (JObj [(''success'', JBool True),
                                     (''orderId'', order_id order),
                                     (''amount'', order_amount order),
                                     (''currency'', order_currency order)])) [ProviderCreate options] st
         | Inl error \<Rightarrow>
             (let razorpayError = js_or (err_error error) (JObj []) in
              finish (json 500 (JObj [(''success'', JBool False),
                                      (''error'', JStr ''Failed to create Razorpay order.''),
                                      (''details'', js_or (get_prop razorpayError ''description'') (err_message error)),
                                      (''code'', get_prop razorpayError ''code'')])) [ProviderCreate options] st)))"

text \<open>The \<^verbatim>\<open>catch\<close> block of the verification branch.\<close>

definition caught :: "string \<Rightarrow> outcome" where
  "caught msg =
     json 500 (JObj [(''success'', JBool False),
                     (''message'', JStr ''Internal server error during verification.''),
                     (''details'', JStr msg)])"

text \<open>
  The verification branch after the signature check: the course lookup, the idempotency
  check, the update of the course and the enrollment record.
\<close>

definition enroll :: "world \<Rightarrow> store \<Rightarrow> jsval \<Rightarrow> jsval \<Rightarrow> jsval \<Rightarrow> jsval \<Rightarrow> jsval \<Rightarrow> run" where
  "enroll w st razorpay_payment_id razorpay_order_id courseId courseTitle userId =
     (case store_fault w (StoreGet courseId) of
        Some msg \<Rightarrow> finish (caught msg) [StoreGet courseId] st
      | None \<Rightarrow>
         (case courses st courseId of
            None \<Rightarrow>
              finish (json 404 (JObj [(''success'', JBool False),
                                      (''message'', JStr ''Course not found for enrollment.'')]))
                [StoreGet courseId] st
          | Some courseData \<Rightarrow>
             (let enrolledUsers = js_or (field courseData ''enrolledUsers'') (JArr []) in
              case js_includes (js w) enrolledUsers userId of
                Inl msg \<Rightarrow> finish (caught msg) [StoreGet courseId] st
              | Inr True \<Rightarrow>
                  finish (json 200 (JObj [(''success'', JBool True),
                                          (''status'', JStr ''already_enrolled''),
                                          (''message'', JStr ''You are already enrolled in this course.'')]))
                    [StoreGet courseId] st
              | Inr False \<Rightarrow>
                 (case store_fault w (StoreUpdate courseId userId) of
                    Some msg \<Rightarrow>
                      finish (caught msg) [StoreGet courseId, StoreUpdate courseId userId] st
                  | None \<Rightarrow>
                     (let st1 = update_enrolledUsers st courseId userId;
                          record = \<lparr>e_userId = userId, e_courseId = courseId, e_courseTitle = courseTitle,
                                    e_paymentId = razorpay_payment_id, e_orderId = razorpay_order_id,
                                    e_amount = field courseData ''price'', e_currency = ''INR'',
                                    e_enrollmentType = ''Paid'', e_enrolledAt = ServerTimestamp,
                                    e_status = ''completed''\<rparr>
                      in
                      case store_fault w (StoreAdd record) of
                        Some msg \<Rightarrow>
                          finish (caught msg)
                            [StoreGet courseId, StoreUpdate courseId userId, StoreAdd record] st1
                      | None \<Rightarrow>
                          finish (json 200 (JObj [(''success'', JBool True),
                                                  (''status'', JStr ''success''),
                                                  (''message'', JStr ''Payment successful and course enrolled!'')]))
                            [StoreGet courseId, StoreUpdate courseId userId, StoreAdd record]
                            (add_enrollment st1 record))))))"

text \<open>
  The signature the handler expects:
  \<^verbatim>\<open>createHmac('sha256', RAZORPAY_KEY_SECRET).update(order_id + '|' + payment_id).digest('hex')\<close>
\<close>

definition generatedSignature :: "world \<Rightarrow> string \<Rightarrow> jsval \<Rightarrow> jsval \<Rightarrow> string" where
  "generatedSignature w secret razorpay_order_id razorpay_payment_id =
     hmac_sha256_hex w secret
       (ToString (js w) razorpay_order_id @ ''|'' @ ToString (js w) razorpay_payment_id)"

text \<open>
  The branch \<^verbatim>\<open>action === 'verify_payment'\<close>. \<^verbatim>\<open>createHmac\<close> throws inside the \<^verbatim>\<open>try\<close> on a
  key that is undefined; the configuration gate of the handler excludes that case.
\<close>

definition verify_payment :: "world \<Rightarrow> store \<Rightarrow> jsval \<Rightarrow> run" where
  "verify_payment w st b =
     (let razorpay_payment_id = get_prop b ''razorpay_payment_id'';
          razorpay_order_id = get_prop b ''razorpay_order_id'';
          razorpay_signature = get_prop b ''razorpay_signature'';
          courseId = get_prop b ''courseId'';
          courseTitle = get_prop b ''courseTitle'';
          userId = get_prop b ''userId''
      in
      if \<not> truthy razorpay_payment_id \<or> \<not> truthy razorpay_order_id \<or> \<not> truthy razorpay_signature
         \<or> \<not> truthy courseId \<or> \<not> truthy courseTitle \<or> \<not> truthy userId then
        finish (json 400 (JObj [(''success'', JBool False),
                                (''message'', JStr ''Missing payment verification details.'')])) [] st
      else
        (case RAZORPAY_KEY_SECRET w of
           None \<Rightarrow> finish (caught ''createHmac: the key is undefined'') [] st
         | Some secret \<Rightarrow>
             if JStr (generatedSignature w secret razorpay_order_id razorpay_payment_id) \<noteq> razorpay_signature then
               finish (json 400 (JObj [(''success'', JBool False),
                                       (''message'', JStr ''Payment signature verification failed.'')])) [] st
             else enroll w st razorpay_payment_id razorpay_order_id courseId courseTitle userId))"

text \<open>
  The exported handler. The four CORS headers are set first and so are on every response.
  Destructuring \<^verbatim>\<open>req.body\<close> when it is null throws outside any \<^verbatim>\<open>try\<close>.
\<close>

definition handler :: "world \<Rightarrow> store \<Rightarrow> request \<Rightarrow> run" where
  "handler w st req =
     (if req_method req = ''OPTIONS'' then finish (end_response 200) [] st
      else if \<not> env_truthy (RAZORPAY_KEY_ID w) \<or> \<not> env_truthy (RAZORPAY_KEY_SECRET w)
              \<or> \<not> razorpay_instance w then
        finish (json 500 (JObj [(''success'', JBool False),
                                (''error'', JStr ''Payment backend not fully configured.'')])) [] st
      else if req_method req = ''POST'' \<and> typeof (body req) \<noteq> ''object'' then
        finish (json 400 (JObj [(''success'', JBool False),
                                (''error'', JStr ''Invalid request body format.'')])) [] st
      else if req_method req = ''POST'' then
        (if body req = JNull then
           finish (Rejected ''TypeError: Cannot destructure property 'action' of 'req.body' as it is null.'') [] st
         else
           (let action = get_prop (body req) ''action'' in
            if action = JStr ''create_order'' then create_order w st (body req)
            else if action = JStr ''verify_payment'' then verify_payment w st (body req)
            else
              finish (json 400 (JObj [(''success'', JBool False),
                                      (''error'', JStr ''Invalid action specified.'')])) [] st))
      else
        finish (json 200 (JObj [(''message'',
                  JStr ''Razorpay API endpoint for EduSource. Send POST requests with 'action' in body.'')])) [] st)"

section \<open>Predicates of the statements\<close>

text \<open>The configuration gate lets a request through: both keys and the client are there.\<close>

definition configured :: "world \<Rightarrow> bool" where
  "configured w =
     (env_truthy (RAZORPAY_KEY_ID w) \<and> env_truthy (RAZORPAY_KEY_SECRET w) \<and> razorpay_instance w)"

text \<open>A field of a payload that is a string and not empty.\<close>

fun nonempty_string :: "jsval \<Rightarrow> bool" where
  "nonempty_string (JStr s) = (s \<noteq> [])"
| "nonempty_string v = False"

fun is_add :: "effect \<Rightarrow> bool" where
  "is_add (StoreAdd r) = True"
| "is_add e = False"

text \<open>The three response bodies of the verification branch that the statements name.\<close>

definition signature_failed :: jsval where
  "signature_failed =
     JObj [(''success'', JBool False), (''message'', JStr ''Payment signature verification failed.'')]"

definition enrolled_now :: jsval where
  "enrolled_now =
     JObj [(''success'', JBool True), (''status'', JStr ''success''),
           (''message'', JStr ''Payment successful and course enrolled!'')]"

definition already_enrolled :: jsval where
  "already_enrolled =
     JObj [(''success'', JBool True), (''status'', JStr ''already_enrolled''),
           (''message'', JStr ''You are already enrolled in this course.'')]"

text \<open>The record the verification branch hands to the enrollments collection.\<close>

definition enrollment_record :: "(string \<rightharpoonup> jsval) \<Rightarrow> jsval \<Rightarrow> enrollment" where
  "enrollment_record courseData b =
     \<lparr>e_userId = get_prop b ''userId'', e_courseId = get_prop b ''courseId'',
      e_courseTitle = get_prop b ''courseTitle'',
      e_paymentId = get_prop b ''razorpay_payment_id'', e_orderId = get_prop b ''razorpay_order_id'',
      e_amount = field courseData ''price'', e_currency = ''INR'',
      e_enrollmentType = ''Paid'', e_enrolledAt = ServerTimestamp, e_status = ''completed''\<rparr>"

text \<open>The store operations that change the store.\<close>

fun is_mutation :: "effect \<Rightarrow> bool" where
  "is_mutation (StoreUpdate c v) = True"
| "is_mutation (StoreAdd r) = True"
| "is_mutation e = False"


section \<open>Sample collaborators\<close>

text \<open>
  Concrete collaborators for the examples: a runtime that writes integral numbers in
  decimal and reads no numeric string (the examples submit none), a keyed function in
  the place of the hash, a provider that answers every order with the id
  \<^verbatim>\<open>order_abc\<close> and the order's own amount and currency, and a store that never throws.
\<close>

definition sample_runtime :: runtime where
  "sample_runtime =
     \<lparr>Number_toString =
        (\<lambda>n. case n of Fin q \<Rightarrow> decimal \<lfloor>q\<rfloor> | NaN \<Rightarrow> ''NaN''
                | PosInf \<Rightarrow> ''Infinity'' | NegInf \<Rightarrow> ''-Infinity''),
      StringToNumber = (\<lambda>s. if s = [] then Fin 0 else NaN)\<rparr>"

definition sample_hmac :: "string \<Rightarrow> string \<Rightarrow> string" where
  "sample_hmac key msg = key @ '':'' @ msg"

definition sample_world :: world where
  "sample_world =
     \<lparr>RAZORPAY_KEY_ID = Some ''rzp_test_id'',
      RAZORPAY_KEY_SECRET = Some ''secret'',
      Razorpay_throws = False,
      Date_now = 1700000000000,
      orders_create =
        (\<lambda>opts. Inr \<lparr>order_id = JStr ''order_abc'', order_amount = opt_amount opts,
                       order_currency = opt_currency opts\<rparr>),
      hmac_sha256_hex = sample_hmac,
      js = sample_runtime,
      store_fault = (\<lambda>e. None)\<rparr>"


text \<open>A course with a price and no \<^verbatim>\<open>enrolledUsers\<close> field, and the same course with user u1 enrolled.\<close>

definition sample_course :: "string \<rightharpoonup> jsval" where
  "sample_course = [''price'' \<mapsto> JNum (Fin 49900)]"

definition sample_store :: store where
  "sample_store = \<lparr>courses = [JStr ''c1'' \<mapsto> sample_course], enrollments = []\<rparr>"

definition enrolled_store :: store where
  "enrolled_store =
     \<lparr>courses = [JStr ''c1'' \<mapsto> sample_course(''enrolledUsers'' \<mapsto> JArr [JStr ''u1''])],
      enrollments = []\<rparr>"

definition create_body :: "jsval \<Rightarrow> jsval" where
  "create_body amt =
     JObj [(''action'', JStr ''create_order''), (''amount'', amt), (''currency'', JStr ''INR''),
           (''courseId'', JStr ''c1''), (''userId'', JStr ''u1'')]"

definition verify_body :: "string \<Rightarrow> jsval" where
  "verify_body sig =
     JObj [(''action'', JStr ''verify_payment''), (''razorpay_payment_id'', JStr ''pay_1''),
           (''razorpay_order_id'', JStr ''order_abc''), (''razorpay_signature'', JStr sig),
           (''courseId'', JStr ''c1''), (''courseTitle'', JStr ''Algebra''), (''userId'', JStr ''u1'')]"

definition post :: "jsval \<Rightarrow> request" where
  "post b = \<lparr>req_method = ''POST'', body = b\<rparr>"

text \<open>The order the sample request asks the provider for at clock value \<open>t\<close>.\<close>

definition sample_options :: "int \<Rightarrow> order_options" where
  "sample_options t =
     \<lparr>opt_amount = JNum (Fin 500), opt_currency = JStr ''INR'', opt_receipt = receiptId t,
      opt_notes_courseId = JStr ''c1'', opt_notes_userId = JStr ''u1''\<rparr>"

text \<open>The sample world with a store whose \<^verbatim>\<open>add\<close> throws.\<close>

definition failing_world :: world where
  "failing_world = sample_world\<lparr>store_fault := (\<lambda>e. if is_add e then Some ''unavailable'' else None)\<rparr>"

text \<open>The signature the sample world expects for order \<^verbatim>\<open>order_abc\<close> and payment \<^verbatim>\<open>pay_1\<close>.\<close>

definition good_signature :: string where
  "good_signature = ''secret:order_abc|pay_1''"

section \<open>Decimal rendering\<close>

lemma digit_char_inj:
  assumes "a < 10" and "b < 10" and "digit_char a = digit_char b"
  shows "a = b"
proof -
  have "distinct ''0123456789''" by simp
  moreover have "a < length ''0123456789''" "b < length ''0123456789''"
    using assms by simp_all
  ultimately show ?thesis
    using assms(3) unfolding digit_char_def by (simp only: nth_eq_iff_index_eq)
qed

lemma digit_char_not_minus: "d < 10 \<Longrightarrow> digit_char d \<noteq> CHR ''-''"
proof -
  assume "d < 10"
  then have "digit_char d \<in> set ''0123456789''"
    unfolding digit_char_def by (intro nth_mem) simp
  then show ?thesis by auto
qed

lemma digits_small: "n < 10 \<Longrightarrow> digits n = [digit_char n]"
  by (subst digits.simps) simp

lemma digits_large: "\<not> n < 10 \<Longrightarrow> digits n = digits (n div 10) @ [digit_char (n mod 10)]"
  by (subst digits.simps) simp

lemma digits_nonempty: "digits n \<noteq> []"
  by (cases "n < 10") (simp_all add: digits_small digits_large)

lemma digits_no_minus: "CHR ''-'' \<notin> set (digits n)"
proof (induction n rule: digits.induct)
  case (1 n)
  show ?case
  proof (cases "n < 10")
    case True
    then show ?thesis using digit_char_not_minus [of n] by (auto simp add: digits_small)
  next
    case False
    have "n mod 10 < 10" by simp
    with False 1 show ?thesis
      using digit_char_not_minus [of "n mod 10"] by (auto simp add: digits_large)
  qed
qed

lemma length_digits: "0 < k \<Longrightarrow> n < 10 ^ k \<Longrightarrow> length (digits n) \<le> k"
proof (induction n arbitrary: k rule: digits.induct)
  case (1 n)
  show ?case
  proof (cases "n < 10")
    case True
    with 1(2) show ?thesis by (simp add: digits_small Suc_le_eq)
  next
    case False
    with 1(3) have "k \<noteq> 1" by auto
    with 1(2) obtain j where k: "k = Suc j" and j: "0 < j" by (cases k) auto
    from 1(3) k have "n div 10 < 10 ^ j"
      by (simp add: less_mult_imp_div_less mult.commute)
    with 1(1) [OF False j] have "length (digits (n div 10)) \<le> j" .
    with False k show ?thesis by (simp add: digits_large)
  qed
qed

lemma digits_inj: "digits a = digits b \<Longrightarrow> a = b"
proof (induction a arbitrary: b rule: digits.induct)
  case (1 a)
  show ?case
  proof (cases "a < 10")
    case a: True
    show ?thesis
    proof (cases "b < 10")
      case True
      with a 1(2) show ?thesis by (simp add: digits_small digit_char_inj)
    next
      case False
      with a 1(2) digits_nonempty [of "b div 10"] show ?thesis
        by (simp add: digits_small digits_large)
    qed
  next
    case a: False
    show ?thesis
    proof (cases "b < 10")
      case True
      with a 1(2) digits_nonempty [of "a div 10"] show ?thesis
        by (simp add: digits_small digits_large)
    next
      case False
      with a 1(2) have eq: "digits (a div 10) = digits (b div 10)"
        and last: "digit_char (a mod 10) = digit_char (b mod 10)"
        by (simp_all add: digits_large)
      from 1(1) [OF a eq] have "a div 10 = b div 10" .
      moreover from last have "a mod 10 = b mod 10"
        by (intro digit_char_inj) simp_all
      ultimately show ?thesis by (metis div_mult_mod_eq)
    qed
  qed
qed

lemma decimal_inj: "decimal a = decimal b \<Longrightarrow> a = b"
proof -
  assume eq: "decimal a = decimal b"
  have first: "hd (digits n) \<noteq> CHR ''-''" for n
    using digits_no_minus [of n] digits_nonempty [of n] by (cases "digits n") auto
  show ?thesis
  proof (cases "a < 0")
    case a: True
    show ?thesis
    proof (cases "b < 0")
      case True
      with a eq have "nat (- a) = nat (- b)" by (simp add: decimal_def digits_inj)
      with a True show ?thesis by simp
    next
      case False
      with a eq have "CHR ''-'' # digits (nat (- a)) = digits (nat b)" by (simp add: decimal_def)
      with first [of "nat b"] show ?thesis by (metis list.sel(1))
    qed
  next
    case a: False
    show ?thesis
    proof (cases "b < 0")
      case True
      with a eq have "digits (nat a) = CHR ''-'' # digits (nat (- b))" by (simp add: decimal_def)
      with first [of "nat a"] show ?thesis by (metis list.sel(1))
    next
      case False
      with a eq have "nat a = nat b" by (simp add: decimal_def digits_inj)
      with a False show ?thesis by simp
    qed
  qed
qed

lemma length_decimal:
  assumes "\<bar>i\<bar> \<le> 8640000000000000"
  shows "length (decimal i) \<le> 17"
proof -
  have "nat \<bar>i\<bar> < 10 ^ 16" using assms by simp
  then have "length (digits (nat \<bar>i\<bar>)) \<le> 16" by (intro length_digits) simp_all
  then show ?thesis by (auto simp add: decimal_def abs_if)
qed

lemma receiptId_inj: "receiptId a = receiptId b \<Longrightarrow> a = b"
  by (simp add: receiptId_def decimal_inj)

lemma length_receiptId: "\<bar>i\<bar> \<le> 8640000000000000 \<Longrightarrow> length (receiptId i) \<le> 40"
  using length_decimal [of i] by (simp add: receiptId_def)

section \<open>Dispatch\<close>

lemma get_prop_string_object:
  "get_prop b k = JStr s \<Longrightarrow> typeof b = ''object'' \<and> b \<noteq> JNull"
  by (cases b) simp_all

lemma handler_create_order:
  assumes "configured w" and "req_method req = ''POST''"
    and "get_prop (body req) ''action'' = JStr ''create_order''"
  shows "handler w st req = create_order w st (body req)"
  using assms get_prop_string_object [OF assms(3)]
  by (simp add: handler_def configured_def)

lemma handler_verify_payment:
  assumes "configured w" and "req_method req = ''POST''"
    and "get_prop (body req) ''action'' = JStr ''verify_payment''"
  shows "handler w st req = verify_payment w st (body req)"
  using assms get_prop_string_object [OF assms(3)]
  by (simp add: handler_def configured_def)

lemma configured_sample: "configured sample_world"
  by (simp add: configured_def sample_world_def razorpay_instance_def)

section \<open>The order branch, step by step\<close>

lemma create_order_invalid:
  assumes "get_prop b ''amount'' = JUndefined \<or> less_100 (js w) (get_prop b ''amount'')"
  shows "create_order w st b =
           finish (json 400 (JObj [(''success'', JBool False),
             (''error'', JStr (if truthy (get_prop b ''amount'') \<and> truthy (get_prop b ''currency'')
                                   \<and> truthy (get_prop b ''courseId'') \<and> truthy (get_prop b ''userId'')
                                then ''Amount must be at least '' @ currency_sign @ ''1 (100 paisa).''
                                else ''Missing required details for order creation.''))])) [] st"
proof (cases "truthy (get_prop b ''amount'')")
  case True
  then have "get_prop b ''amount'' \<noteq> JUndefined" by auto
  with assms have "less_100 (js w) (get_prop b ''amount'')" by simp
  then show ?thesis by (simp add: create_order_def Let_def)
next
  case False
  then show ?thesis by (simp add: create_order_def Let_def)
qed

lemma create_order_provider_answer:
  assumes "truthy (get_prop b ''amount'')" and "truthy (get_prop b ''currency'')"
    and "truthy (get_prop b ''courseId'')" and "truthy (get_prop b ''userId'')"
    and "\<not> less_100 (js w) (get_prop b ''amount'')"
    and "orders_create w \<lparr>opt_amount = get_prop b ''amount'', opt_currency = get_prop b ''currency'',
            opt_receipt = receiptId (Date_now w), opt_notes_courseId = get_prop b ''courseId'',
            opt_notes_userId = get_prop b ''userId''\<rparr> = Inr ord"
  shows "create_order w st b =
           finish (json 200 (JObj [(''success'', JBool True), (''orderId'', order_id ord),
                                   (''amount'', order_amount ord), (''currency'', order_currency ord)]))
             [ProviderCreate \<lparr>opt_amount = get_prop b ''amount'', opt_currency = get_prop b ''currency'',
                opt_receipt = receiptId (Date_now w), opt_notes_courseId = get_prop b ''courseId'',
                opt_notes_userId = get_prop b ''userId''\<rparr>] st"
  using assms by (simp add: create_order_def Let_def)

lemma create_body_props:
  "get_prop (create_body a) ''action'' = JStr ''create_order''"
  "get_prop (create_body a) ''amount'' = a"
  "get_prop (create_body a) ''currency'' = JStr ''INR''"
  "get_prop (create_body a) ''courseId'' = JStr ''c1''"
  "get_prop (create_body a) ''userId'' = JStr ''u1''"
  by (simp_all add: create_body_def)

lemma sample_world_fields:
  "js sample_world = sample_runtime"
  "Date_now sample_world = 1700000000000"
  "RAZORPAY_KEY_SECRET sample_world = Some ''secret''"
  "hmac_sha256_hex sample_world = sample_hmac"
  "store_fault sample_world = (\<lambda>e. None)"
  by (simp_all add: sample_world_def)

lemma post_fields: "req_method (post b) = ''POST''" "body (post b) = b"
  by (simp_all add: post_def)



section \<open>The verification branch, step by step\<close>

lemma verify_payment_checked:
  assumes "truthy (get_prop b ''razorpay_payment_id'')" and "truthy (get_prop b ''razorpay_order_id'')"
    and "truthy (get_prop b ''razorpay_signature'')" and "truthy (get_prop b ''courseId'')"
    and "truthy (get_prop b ''courseTitle'')" and "truthy (get_prop b ''userId'')"
    and "RAZORPAY_KEY_SECRET w = Some secret"
  shows "verify_payment w st b =
           (if JStr (generatedSignature w secret (get_prop b ''razorpay_order_id'')
                       (get_prop b ''razorpay_payment_id'')) \<noteq> get_prop b ''razorpay_signature''
            then finish (json 400 signature_failed) [] st
            else enroll w st (get_prop b ''razorpay_payment_id'') (get_prop b ''razorpay_order_id'')
                   (get_prop b ''courseId'') (get_prop b ''courseTitle'') (get_prop b ''userId''))"
  using assms by (simp add: verify_payment_def Let_def signature_failed_def)

lemma verify_payment_effects:
  "effects (verify_payment w st b) = [] \<or>
   verify_payment w st b =
     enroll w st (get_prop b ''razorpay_payment_id'') (get_prop b ''razorpay_order_id'')
       (get_prop b ''courseId'') (get_prop b ''courseTitle'') (get_prop b ''userId'')"
  by (simp add: verify_payment_def Let_def finish_def split: option.splits)

lemma create_order_effects:
  "effects (create_order w st b) = [] \<or>
   (\<exists>opts. effects (create_order w st b) = [ProviderCreate opts]
      \<and> opt_receipt opts = receiptId (Date_now w))"
  by (simp add: create_order_def Let_def finish_def split: sum.splits)

lemma handler_effects:
  "effects (handler w st req) = [] \<or> handler w st req = create_order w st (body req)
   \<or> handler w st req = verify_payment w st (body req)"
  by (simp add: handler_def Let_def finish_def)

lemma enroll_add:
  assumes "StoreAdd r \<in> set (effects (enroll w st pid oid cid title uid))"
  shows "effects (enroll w st pid oid cid title uid) = [StoreGet cid, StoreUpdate cid uid, StoreAdd r]
    \<and> (\<exists>d. courses st cid = Some d \<and>
          r = \<lparr>e_userId = uid, e_courseId = cid, e_courseTitle = title, e_paymentId = pid,
                e_orderId = oid, e_amount = field d ''price'', e_currency = ''INR'',
                e_enrollmentType = ''Paid'', e_enrolledAt = ServerTimestamp, e_status = ''completed''\<rparr>)"
  using assms
  by (auto simp add: enroll_def Let_def finish_def split: option.splits sum.splits bool.splits if_splits)

lemma enroll_fault:
  assumes "e \<in> set (effects (enroll w st pid oid cid title uid))"
    and "store_fault w e = Some msg"
  shows "outcome (enroll w st pid oid cid title uid) = caught msg"
  using assms
  by (auto simp add: enroll_def Let_def finish_def split: option.splits sum.splits bool.splits if_splits)

lemma enroll_store_effects:
  assumes "e \<in> set (effects (enroll w st pid oid cid title uid))"
  shows "\<forall>opts. e \<noteq> ProviderCreate opts"
  using assms
  by (auto simp add: enroll_def Let_def finish_def split: option.splits sum.splits bool.splits if_splits)

lemma enroll_enrollments:
  "set (enrollments (final_store (enroll w st pid oid cid title uid)))
     \<subseteq> set (enrollments st) \<union> {r. StoreAdd r \<in> set (effects (enroll w st pid oid cid title uid))}"
  by (auto simp add: enroll_def Let_def finish_def update_enrolledUsers_def add_enrollment_def
        split: option.splits sum.splits bool.splits if_splits)

lemma handler_add:
  assumes "StoreAdd r \<in> set (effects (handler w st req))"
  shows "handler w st req =
     enroll w st (get_prop (body req) ''razorpay_payment_id'') (get_prop (body req) ''razorpay_order_id'')
       (get_prop (body req) ''courseId'') (get_prop (body req) ''courseTitle'') (get_prop (body req) ''userId'')"
proof -
  from handler_effects [of w st req] assms
  consider (c) "handler w st req = create_order w st (body req)"
    | (v) "handler w st req = verify_payment w st (body req)"
    by auto
  then show ?thesis
  proof cases
    case c
    with assms create_order_effects [of w st "body req"] show ?thesis by auto
  next
    case v
    with assms verify_payment_effects [of w st "body req"] show ?thesis by auto
  qed
qed

lemma handler_mutation:
  assumes "e \<in> set (effects (handler w st req))" and "is_mutation e"
  shows "handler w st req =
     enroll w st (get_prop (body req) ''razorpay_payment_id'') (get_prop (body req) ''razorpay_order_id'')
       (get_prop (body req) ''courseId'') (get_prop (body req) ''courseTitle'') (get_prop (body req) ''userId'')"
proof -
  from handler_effects [of w st req] assms
  consider (c) "handler w st req = create_order w st (body req)"
    | (v) "handler w st req = verify_payment w st (body req)"
    by auto
  then show ?thesis
  proof cases
    case c
    with assms create_order_effects [of w st "body req"] show ?thesis by auto
  next
    case v
    with assms verify_payment_effects [of w st "body req"] show ?thesis by auto
  qed
qed

lemma create_order_final_store: "final_store (create_order w st b) = st"
  by (simp add: create_order_def Let_def finish_def split: sum.splits)

lemma verify_payment_final_store:
  "final_store (verify_payment w st b) = st \<or>
   verify_payment w st b =
     enroll w st (get_prop b ''razorpay_payment_id'') (get_prop b ''razorpay_order_id'')
       (get_prop b ''courseId'') (get_prop b ''courseTitle'') (get_prop b ''userId'')"
  by (simp add: verify_payment_def Let_def finish_def split: option.splits)

lemma handler_final_store:
  "final_store (handler w st req) = st \<or>
   handler w st req =
     enroll w st (get_prop (body req) ''razorpay_payment_id'') (get_prop (body req) ''razorpay_order_id'')
       (get_prop (body req) ''courseId'') (get_prop (body req) ''courseTitle'') (get_prop (body req) ''userId'')"
  using verify_payment_final_store [of w st "body req"]
  by (auto simp add: handler_def Let_def finish_def create_order_final_store)

lemma enroll_fresh:
  assumes "\<forall>e. store_fault w e = None" and "courses st cid = Some d"
    and "js_includes (js w) (js_or (field d ''enrolledUsers'') (JArr [])) uid = Inr False"
  shows "enroll w st pid oid cid title uid =
     finish (json 200 enrolled_now)
       [StoreGet cid, StoreUpdate cid uid,
        StoreAdd \<lparr>e_userId = uid, e_courseId = cid, e_courseTitle = title, e_paymentId = pid,
                  e_orderId = oid, e_amount = field d ''price'', e_currency = ''INR'',
                  e_enrollmentType = ''Paid'', e_enrolledAt = ServerTimestamp, e_status = ''completed''\<rparr>]
       (st\<lparr>courses := (courses st)(cid \<mapsto> d(''enrolledUsers'' \<mapsto> arrayUnion (d ''enrolledUsers'') uid)),
           enrollments := enrollments st @
          [\<lparr>e_userId = uid, e_courseId = cid, e_courseTitle = title, e_paymentId = pid,
                  e_orderId = oid, e_amount = field d ''price'', e_currency = ''INR'',
                  e_enrollmentType = ''Paid'', e_enrolledAt = ServerTimestamp, e_status = ''completed''\<rparr>]\<rparr>)"
  using assms
  by (simp add: enroll_def Let_def enrolled_now_def update_enrolledUsers_def add_enrollment_def)

lemma enroll_found:
  assumes "store_fault w (StoreGet cid) = None" and "courses st cid = Some d"
    and "js_includes (js w) (js_or (field d ''enrolledUsers'') (JArr [])) uid = Inr True"
  shows "enroll w st pid oid cid title uid = finish (json 200 already_enrolled) [StoreGet cid] st"
  using assms by (simp add: enroll_def Let_def already_enrolled_def)




lemma verify_body_props:
  "get_prop (verify_body sig) ''action'' = JStr ''verify_payment''"
  "get_prop (verify_body sig) ''razorpay_payment_id'' = JStr ''pay_1''"
  "get_prop (verify_body sig) ''razorpay_order_id'' = JStr ''order_abc''"
  "get_prop (verify_body sig) ''razorpay_signature'' = JStr sig"
  "get_prop (verify_body sig) ''courseId'' = JStr ''c1''"
  "get_prop (verify_body sig) ''courseTitle'' = JStr ''Algebra''"
  "get_prop (verify_body sig) ''userId'' = JStr ''u1''"
  by (simp_all add: verify_body_def)

lemma sample_store_course:
  "courses sample_store (JStr ''c1'') = Some sample_course"
  "sample_course ''enrolledUsers'' = None"
  "field sample_course ''price'' = JNum (Fin 49900)"
  "enrollments sample_store = []"
  by (simp_all add: sample_store_def sample_course_def field_def)

lemma enrolled_store_course:
  "courses enrolled_store (JStr ''c1'') = Some (sample_course(''enrolledUsers'' \<mapsto> JArr [JStr ''u1'']))"
  by (simp add: enrolled_store_def)

lemma string_member:
  assumes "nonempty_string uid"
  shows "list_ex (\<lambda>x. same_value_zero x uid) xs = (uid \<in> set xs)"
proof -
  from assms obtain s where uid: "uid = JStr s" by (cases uid) auto
  have "same_value_zero x (JStr s) = (x = JStr s)" for x by (cases x) auto
  then show ?thesis by (simp add: uid list_ex_iff)
qed

lemma nonempty_string_truthy: "nonempty_string v \<Longrightarrow> truthy v"
  by (cases v) auto

lemma not_enrolled_check:
  assumes "nonempty_string uid"
    and "d ''enrolledUsers'' = None \<or> d ''enrolledUsers'' = Some JNull
         \<or> (\<exists>xs. d ''enrolledUsers'' = Some (JArr xs) \<and> uid \<notin> set xs)"
  shows "js_includes rt (js_or (field d ''enrolledUsers'') (JArr [])) uid = Inr False"
  using assms(2) string_member [OF assms(1)]
  by (auto simp add: js_or_def field_def)

lemma enrolled_check:
  assumes "nonempty_string uid"
  shows "js_includes rt (js_or (field (d(''enrolledUsers'' \<mapsto> arrayUnion f uid)) ''enrolledUsers'') (JArr [])) uid
           = Inr True"
proof -
  have "\<exists>ys. arrayUnion f uid = JArr ys \<and> uid \<in> set ys"
    by (cases "(f, uid)" rule: arrayUnion.cases) auto
  then obtain ys where "arrayUnion f uid = JArr ys" and "uid \<in> set ys" by blast
  then show ?thesis
    using string_member [OF assms] by (simp add: js_or_def field_def)
qed

lemma failing_world_fields:
  "js failing_world = sample_runtime"
  "RAZORPAY_KEY_SECRET failing_world = Some ''secret''"
  "hmac_sha256_hex failing_world = sample_hmac"
  "store_fault failing_world = (\<lambda>e. if is_add e then Some ''unavailable'' else None)"
  by (simp_all add: failing_world_def sample_world_def)

lemma configured_failing: "configured failing_world"
  by (simp add: configured_def failing_world_def sample_world_def razorpay_instance_def)

lemma enroll_add_fails:
  assumes "store_fault w (StoreGet cid) = None" and "store_fault w (StoreUpdate cid uid) = None"
    and "courses st cid = Some d"
    and "js_includes (js w) (js_or (field d ''enrolledUsers'') (JArr [])) uid = Inr False"
    and "store_fault w (StoreAdd \<lparr>e_userId = uid, e_courseId = cid, e_courseTitle = title, e_paymentId = pid,
                  e_orderId = oid, e_amount = field d ''price'', e_currency = ''INR'',
                  e_enrollmentType = ''Paid'', e_enrolledAt = ServerTimestamp, e_status = ''completed''\<rparr>) = Some msg"
  shows "enroll w st pid oid cid title uid =
     finish (caught msg)
       [StoreGet cid, StoreUpdate cid uid,
        StoreAdd \<lparr>e_userId = uid, e_courseId = cid, e_courseTitle = title, e_paymentId = pid,
                  e_orderId = oid, e_amount = field d ''price'', e_currency = ''INR'',
                  e_enrollmentType = ''Paid'', e_enrolledAt = ServerTimestamp, e_status = ''completed''\<rparr>]
       (update_enrolledUsers st cid uid)"
  using assms by (simp add: enroll_def Let_def)

lemma sample_record:
  "enrollment_record sample_course (verify_body sig) =
     \<lparr>e_userId = JStr ''u1'', e_courseId = JStr ''c1'', e_courseTitle = JStr ''Algebra'',
      e_paymentId = JStr ''pay_1'', e_orderId = JStr ''order_abc'', e_amount = JNum (Fin 49900),
      e_currency = ''INR'', e_enrollmentType = ''Paid'', e_enrolledAt = ServerTimestamp,
      e_status = ''completed''\<rparr>"
  by (simp add: enrollment_record_def verify_body_props sample_store_course)

lemma sample_not_enrolled:
  "js_includes rt (js_or (field sample_course ''enrolledUsers'') (JArr [])) (JStr ''u1'') = Inr False"
  by (rule not_enrolled_check) (simp_all add: sample_store_course)

lemma sample_run:
  "handler sample_world sample_store (post (verify_body good_signature)) =
     finish (json 200 enrolled_now)
       [StoreGet (JStr ''c1''), StoreUpdate (JStr ''c1'') (JStr ''u1''),
        StoreAdd (enrollment_record sample_course (verify_body good_signature))]
       (sample_store\<lparr>courses := (courses sample_store)(JStr ''c1'' \<mapsto>
            sample_course(''enrolledUsers'' \<mapsto> JArr [JStr ''u1''])),
          enrollments := [enrollment_record sample_course (verify_body good_signature)]\<rparr>)"
proof -
  have "handler sample_world sample_store (post (verify_body good_signature)) =
      verify_payment sample_world sample_store (verify_body good_signature)"
    using handler_verify_payment [OF configured_sample, of "post (verify_body good_signature)" sample_store]
    by (simp add: post_fields verify_body_props)
  also have "\<dots> = enroll sample_world sample_store (JStr ''pay_1'') (JStr ''order_abc'') (JStr ''c1'')
      (JStr ''Algebra'') (JStr ''u1'')"
    using verify_payment_checked [of "verify_body good_signature" sample_world "''secret''" sample_store]
    by (simp add: verify_body_props sample_world_fields generatedSignature_def sample_hmac_def
          good_signature_def)
  also have "\<dots> = finish (json 200 enrolled_now)
       [StoreGet (JStr ''c1''), StoreUpdate (JStr ''c1'') (JStr ''u1''),
        StoreAdd (enrollment_record sample_course (verify_body good_signature))]
       (sample_store\<lparr>courses := (courses sample_store)(JStr ''c1'' \<mapsto>
            sample_course(''enrolledUsers'' \<mapsto> JArr [JStr ''u1''])),
          enrollments := [enrollment_record sample_course (verify_body good_signature)]\<rparr>)"
    using enroll_fresh [of sample_world sample_store "JStr ''c1''" sample_course "JStr ''u1''"
            "JStr ''pay_1''" "JStr ''order_abc''" "JStr ''Algebra''"] sample_not_enrolled
    by (simp add: sample_world_fields sample_store_course sample_record)
  finally show ?thesis .
qed

lemma failing_run:
  "handler failing_world sample_store (post (verify_body good_signature)) =
     finish (caught ''unavailable'')
       [StoreGet (JStr ''c1''), StoreUpdate (JStr ''c1'') (JStr ''u1''),
        StoreAdd (enrollment_record sample_course (verify_body good_signature))]
       (update_enrolledUsers sample_store (JStr ''c1'') (JStr ''u1''))"
proof -
  have "handler failing_world sample_store (post (verify_body good_signature)) =
      verify_payment failing_world sample_store (verify_body good_signature)"
    using handler_verify_payment [OF configured_failing, of "post (verify_body good_signature)" sample_store]
    by (simp add: post_fields verify_body_props)
  also have "\<dots> = enroll failing_world sample_store (JStr ''pay_1'') (JStr ''order_abc'') (JStr ''c1'')
      (JStr ''Algebra'') (JStr ''u1'')"
    using verify_payment_checked [of "verify_body good_signature" failing_world "''secret''" sample_store]
    by (simp add: verify_body_props failing_world_fields generatedSignature_def sample_hmac_def
          good_signature_def)
  also have "\<dots> = finish (caught ''unavailable'')
       [StoreGet (JStr ''c1''), StoreUpdate (JStr ''c1'') (JStr ''u1''),
        StoreAdd (enrollment_record sample_course (verify_body good_signature))]
       (update_enrolledUsers sample_store (JStr ''c1'') (JStr ''u1''))"
    using enroll_add_fails [of failing_world "JStr ''c1''" "JStr ''u1''" sample_store sample_course
            "JStr ''Algebra''" "JStr ''pay_1''" "JStr ''order_abc''" "''unavailable''"] sample_not_enrolled
    by (simp add: failing_world_fields sample_store_course sample_record)
  finally show ?thesis .
qed

lemma enrolled_run:
  "handler sample_world enrolled_store (post (verify_body good_signature)) =
     finish (json 200 already_enrolled) [StoreGet (JStr ''c1'')] enrolled_store"
proof -
  have "handler sample_world enrolled_store (post (verify_body good_signature)) =
      verify_payment sample_world enrolled_store (verify_body good_signature)"
    using handler_verify_payment [OF configured_sample, of "post (verify_body good_signature)" enrolled_store]
    by (simp add: post_fields verify_body_props)
  also have "\<dots> = enroll sample_world enrolled_store (JStr ''pay_1'') (JStr ''order_abc'') (JStr ''c1'')
      (JStr ''Algebra'') (JStr ''u1'')"
    using verify_payment_checked [of "verify_body good_signature" sample_world "''secret''" enrolled_store]
    by (simp add: verify_body_props sample_world_fields generatedSignature_def sample_hmac_def
          good_signature_def)
  also have "\<dots> = finish (json 200 already_enrolled) [StoreGet (JStr ''c1'')] enrolled_store"
    by (rule enroll_found [OF _ enrolled_store_course])
       (simp_all add: sample_world_fields js_or_def field_def)
  finally show ?thesis .
qed

lemma handler_provider_call:
  assumes "ProviderCreate opts \<in> set (effects (handler w st req))"
  shows "opt_receipt opts = receiptId (Date_now w)"
proof -
  from handler_effects [of w st req] assms
  consider (c) "handler w st req = create_order w st (body req)"
    | (v) "handler w st req = verify_payment w st (body req)"
    by auto
  then show ?thesis
  proof cases
    case c
    with assms create_order_effects [of w st "body req"] show ?thesis by auto
  next
    case v
    with assms verify_payment_effects [of w st "body req"]
    have "ProviderCreate opts \<in> set (effects (enroll w st (get_prop (body req) ''razorpay_payment_id'')
       (get_prop (body req) ''razorpay_order_id'') (get_prop (body req) ''courseId'')
       (get_prop (body req) ''courseTitle'') (get_prop (body req) ''userId'')))" by auto
    from enroll_store_effects [OF this] show ?thesis by blast
  qed
qed

lemma sample_order_run:
  "effects (handler (sample_world\<lparr>Date_now := t\<rparr>) sample_store (post (create_body (JNum (Fin 500))))) =
     [ProviderCreate (sample_options t)]"
proof -
  let ?w = "sample_world\<lparr>Date_now := t\<rparr>"
  have conf: "configured ?w"
    by (simp add: configured_def sample_world_def razorpay_instance_def)
  have big: "\<not> less_100 (js ?w) (JNum (Fin 500))"
    by (simp add: less_100_def)
  have ans: "orders_create sample_world opts =
      Inr \<lparr>order_id = JStr ''order_abc'', order_amount = opt_amount opts,
           order_currency = opt_currency opts\<rparr>" for opts
    by (simp add: sample_world_def)
  have "handler ?w sample_store (post (create_body (JNum (Fin 500)))) =
      create_order ?w sample_store (create_body (JNum (Fin 500)))"
    using handler_create_order [OF conf, of "post (create_body (JNum (Fin 500)))" sample_store]
    by (simp add: post_fields create_body_props)
  also have "effects \<dots> = [ProviderCreate (sample_options t)]"
    using create_order_provider_answer [of "create_body (JNum (Fin 500))" ?w _ sample_store] big
    by (simp add: create_body_props ans finish_def sample_options_def)
  finally show ?thesis .
qed

section \<open>The configuration gate\<close>

text \<open>
  C10: whenever the provider key id, the key secret or the provider client is missing,
  every request that is not OPTIONS (whatever its method and body) is answered with
  HTTP 500 and \<^verbatim>\<open>{success:false, error:"Payment backend not fully configured."}\<close>; the
  run asks nothing of the provider or the store and leaves the store as it was.
\<close>

theorem unconfigured_backend_fails_fast:
  assumes "\<not> env_truthy (RAZORPAY_KEY_ID w) \<or> \<not> env_truthy (RAZORPAY_KEY_SECRET w)
           \<or> \<not> razorpay_instance w"
    and "req_method req \<noteq> ''OPTIONS''"
  shows "handler w st req =
           finish (json 500 (JObj [(''success'', JBool False),
                                   (''error'', JStr ''Payment backend not fully configured.'')])) [] st"
  using assms by (simp add: handler_def)

theorem unconfigured_backend_fails_fast_witness:
  "RAZORPAY_KEY_SECRET (sample_world\<lparr>RAZORPAY_KEY_SECRET := None\<rparr>) = None
   \<and> handler (sample_world\<lparr>RAZORPAY_KEY_SECRET := None\<rparr>) sample_store
        (post (create_body (JNum (Fin 500)))) =
      finish (json 500 (JObj [(''success'', JBool False),
                              (''error'', JStr ''Payment backend not fully configured.'')])) [] sample_store
   \<and> handler (sample_world\<lparr>RAZORPAY_KEY_SECRET := None\<rparr>) sample_store
        \<lparr>req_method = ''GET'', body = JUndefined\<rparr> =
      finish (json 500 (JObj [(''success'', JBool False),
                              (''error'', JStr ''Payment backend not fully configured.'')])) [] sample_store"
  using unconfigured_backend_fails_fast
          [of "sample_world\<lparr>RAZORPAY_KEY_SECRET := None\<rparr>" "post (create_body (JNum (Fin 500)))" sample_store]
        unconfigured_backend_fails_fast
          [of "sample_world\<lparr>RAZORPAY_KEY_SECRET := None\<rparr>" "\<lparr>req_method = ''GET'', body = JUndefined\<rparr>" sample_store]
  by (simp add: post_def)

section \<open>Order creation\<close>

text \<open>
  C4: in a configured backend, every \<^verbatim>\<open>create_order\<close> request whose amount is absent or
  less than 100 (so also 0) is answered with HTTP 400 and a body with \<^verbatim>\<open>success:false\<close>:
  the message for missing details when one of the four fields is falsy, the message for
  an amount too low otherwise. The run makes no call to the provider.
\<close>

theorem create_order_rejects_low_amount:
  assumes "configured w" and "req_method req = ''POST''"
    and "get_prop (body req) ''action'' = JStr ''create_order''"
    and "get_prop (body req) ''amount'' = JUndefined \<or> less_100 (js w) (get_prop (body req) ''amount'')"
  shows "handler w st req =
           finish (json 400 (JObj [(''success'', JBool False),
             (''error'', JStr (if truthy (get_prop (body req) ''amount'') \<and> truthy (get_prop (body req) ''currency'')
                                   \<and> truthy (get_prop (body req) ''courseId'') \<and> truthy (get_prop (body req) ''userId'')
                                then ''Amount must be at least '' @ currency_sign @ ''1 (100 paisa).''
                                else ''Missing required details for order creation.''))])) [] st
         \<and> effects (handler w st req) = []"
  using assms(4) by (simp add: handler_create_order [OF assms(1-3)] create_order_invalid finish_def)

theorem create_order_rejects_low_amount_witness:
  "less_100 (js sample_world) (JNum (Fin 50))
   \<and> handler sample_world sample_store (post (create_body (JNum (Fin 50)))) =
       finish (json 400 (JObj [(''success'', JBool False),
         (''error'', JStr (''Amount must be at least '' @ currency_sign @ ''1 (100 paisa).''))])) [] sample_store
   \<and> handler sample_world sample_store (post (create_body JUndefined)) =
       finish (json 400 (JObj [(''success'', JBool False),
         (''error'', JStr ''Missing required details for order creation.'')])) [] sample_store"
proof -
  have low: "less_100 (js sample_world) (JNum (Fin 50))"
    by (simp add: less_100_def)
  from create_order_rejects_low_amount [of sample_world "post (create_body (JNum (Fin 50)))" sample_store]
       create_order_rejects_low_amount [of sample_world "post (create_body JUndefined)" sample_store]
  show ?thesis using low
    by (simp add: configured_sample post_fields create_body_props)
qed








section \<open>Dispatch on the method and the action\<close>






section \<open>Payment verification\<close>



text \<open>
  C3: in every run of the handler, an enrollment record is handed to the store only as
  the third store operation, after the read of the course and the update of its
  \<^verbatim>\<open>enrolledUsers\<close>; and when the update or the append throws, the response is HTTP 500
  with \<^verbatim>\<open>success:false\<close> and the error's message, never a success.
\<close>

theorem update_precedes_append:
  "(\<forall>r. StoreAdd r \<in> set (effects (handler w st req)) \<longrightarrow>
        effects (handler w st req) =
          [StoreGet (e_courseId r), StoreUpdate (e_courseId r) (e_userId r), StoreAdd r])
   \<and> (\<forall>e msg. e \<in> set (effects (handler w st req)) \<longrightarrow> is_mutation e \<longrightarrow>
         store_fault w e = Some msg \<longrightarrow>
         outcome (handler w st req) =
           json 500 (JObj [(''success'', JBool False),
                           (''message'', JStr ''Internal server error during verification.''),
                           (''details'', JStr msg)]))"
proof (intro conjI allI impI)
  fix r assume a: "StoreAdd r \<in> set (effects (handler w st req))"
  from a enroll_add [of r w st] show "effects (handler w st req) =
          [StoreGet (e_courseId r), StoreUpdate (e_courseId r) (e_userId r), StoreAdd r]"
    unfolding handler_add [OF a] by fastforce
next
  fix e msg
  assume e: "e \<in> set (effects (handler w st req))" and m: "is_mutation e"
    and f: "store_fault w e = Some msg"
  from e f enroll_fault [of e w st _ _ _ _ _ msg]
  show "outcome (handler w st req) =
           json 500 (JObj [(''success'', JBool False),
                           (''message'', JStr ''Internal server error during verification.''),
                           (''details'', JStr msg)])"
    unfolding handler_mutation [OF e m] by (simp add: caught_def)
qed

theorem update_precedes_append_witness:
  "effects (handler failing_world sample_store (post (verify_body good_signature))) =
      [StoreGet (JStr ''c1''), StoreUpdate (JStr ''c1'') (JStr ''u1''),
       StoreAdd (enrollment_record sample_course (verify_body good_signature))]
   \<and> outcome (handler failing_world sample_store (post (verify_body good_signature))) =
      json 500 (JObj [(''success'', JBool False),
                      (''message'', JStr ''Internal server error during verification.''),
                      (''details'', JStr ''unavailable'')])"
proof -
  let ?run = "handler failing_world sample_store (post (verify_body good_signature))"
  let ?r = "enrollment_record sample_course (verify_body good_signature)"
  have mem: "StoreAdd ?r \<in> set (effects ?run)"
    by (simp add: failing_run finish_def)
  have fault: "store_fault failing_world (StoreAdd ?r) = Some ''unavailable''"
    by (simp add: failing_world_fields)
  have ids: "e_courseId ?r = JStr ''c1''" "e_userId ?r = JStr ''u1''"
    by (simp_all add: sample_record)
  note inst = update_precedes_append [of failing_world sample_store "post (verify_body good_signature)"]
  from inst mem
  have 1: "effects ?run = [StoreGet (e_courseId ?r), StoreUpdate (e_courseId ?r) (e_userId ?r), StoreAdd ?r]"
    by blast
  have mut: "is_mutation (StoreAdd ?r)" by simp
  from inst mem mut fault
  have 2: "outcome ?run = json 500 (JObj [(''success'', JBool False),
                      (''message'', JStr ''Internal server error during verification.''),
                      (''details'', JStr ''unavailable'')])"
    by blast
  from 1 2 show ?thesis by (simp only: ids)
qed

text \<open>
  C9: every enrollment record the handler hands to the store has the currency \<^verbatim>\<open>INR\<close>, the
  enrollment type \<^verbatim>\<open>Paid\<close>, the status \<^verbatim>\<open>completed\<close> and, as amount, the \<^verbatim>\<open>price\<close> field of
  the course document read in that run, whatever the request holds; and the store's
  enrollments gain no record but those.
\<close>

theorem enrollment_record_fields:
  "(\<forall>r. StoreAdd r \<in> set (effects (handler w st req)) \<longrightarrow>
        e_currency r = ''INR'' \<and> e_enrollmentType r = ''Paid'' \<and> e_status r = ''completed''
        \<and> (\<exists>d. courses st (get_prop (body req) ''courseId'') = Some d \<and> e_amount r = field d ''price''))
   \<and> set (enrollments (final_store (handler w st req)))
        \<subseteq> set (enrollments st) \<union> {r. StoreAdd r \<in> set (effects (handler w st req))}"
proof (intro conjI allI impI)
  fix r assume a: "StoreAdd r \<in> set (effects (handler w st req))"
  from a have "\<exists>d. courses st (get_prop (body req) ''courseId'') = Some d \<and>
          r = \<lparr>e_userId = get_prop (body req) ''userId'', e_courseId = get_prop (body req) ''courseId'',
                e_courseTitle = get_prop (body req) ''courseTitle'',
                e_paymentId = get_prop (body req) ''razorpay_payment_id'',
                e_orderId = get_prop (body req) ''razorpay_order_id'', e_amount = field d ''price'',
                e_currency = ''INR'', e_enrollmentType = ''Paid'', e_enrolledAt = ServerTimestamp,
                e_status = ''completed''\<rparr>"
    unfolding handler_add [OF a] by (rule enroll_add [THEN conjunct2])
  then obtain d where d: "courses st (get_prop (body req) ''courseId'') = Some d"
    and r: "r = \<lparr>e_userId = get_prop (body req) ''userId'', e_courseId = get_prop (body req) ''courseId'',
                e_courseTitle = get_prop (body req) ''courseTitle'',
                e_paymentId = get_prop (body req) ''razorpay_payment_id'',
                e_orderId = get_prop (body req) ''razorpay_order_id'', e_amount = field d ''price'',
                e_currency = ''INR'', e_enrollmentType = ''Paid'', e_enrolledAt = ServerTimestamp,
                e_status = ''completed''\<rparr>"
    by blast
  from r show "e_currency r = ''INR''" by simp
  from r show "e_enrollmentType r = ''Paid''" by simp
  from r show "e_status r = ''completed''" by simp
  from d r show "\<exists>d. courses st (get_prop (body req) ''courseId'') = Some d \<and> e_amount r = field d ''price''"
    by simp
next
  from handler_final_store [of w st req]
  show "set (enrollments (final_store (handler w st req)))
        \<subseteq> set (enrollments st) \<union> {r. StoreAdd r \<in> set (effects (handler w st req))}"
  proof
    assume "final_store (handler w st req) = st"
    then show ?thesis by auto
  next
    assume h: "handler w st req =
     enroll w st (get_prop (body req) ''razorpay_payment_id'') (get_prop (body req) ''razorpay_order_id'')
       (get_prop (body req) ''courseId'') (get_prop (body req) ''courseTitle'') (get_prop (body req) ''userId'')"
    show ?thesis unfolding h by (rule enroll_enrollments)
  qed
qed

theorem enrollment_record_fields_witness:
  "StoreAdd (enrollment_record sample_course (verify_body good_signature))
      \<in> set (effects (handler sample_world sample_store (post (verify_body good_signature))))
   \<and> e_currency (enrollment_record sample_course (verify_body good_signature)) = ''INR''
   \<and> e_enrollmentType (enrollment_record sample_course (verify_body good_signature)) = ''Paid''
   \<and> e_status (enrollment_record sample_course (verify_body good_signature)) = ''completed''
   \<and> e_amount (enrollment_record sample_course (verify_body good_signature)) = JNum (Fin 49900)"
proof -
  let ?run = "handler sample_world sample_store (post (verify_body good_signature))"
  let ?r = "enrollment_record sample_course (verify_body good_signature)"
  have mem: "StoreAdd ?r \<in> set (effects ?run)"
    by (simp add: sample_run finish_def)
  from enrollment_record_fields [of sample_world sample_store "post (verify_body good_signature)"] mem
  have "e_currency ?r = ''INR'' \<and> e_enrollmentType ?r = ''Paid'' \<and> e_status ?r = ''completed''
        \<and> (\<exists>d. courses sample_store (get_prop (body (post (verify_body good_signature))) ''courseId'') = Some d
              \<and> e_amount ?r = field d ''price'')"
    by blast
  with mem show ?thesis
    by (auto simp add: post_fields verify_body_props sample_store_course)
qed

section \<open>Enrollment\<close>



text \<open>
  The two calls of C2 on a store where the user is enrolled already: the signature
  verifies, the course exists, and the first call answers \<^verbatim>\<open>already_enrolled\<close>.
\<close>

theorem verify_twice_counterexample:
  "get_prop (verify_body good_signature) ''razorpay_signature'' =
     JStr (hmac_sha256_hex sample_world ''secret'' ''order_abc|pay_1'')
   \<and> courses enrolled_store (JStr ''c1'') =
       Some (sample_course(''enrolledUsers'' \<mapsto> JArr [JStr ''u1'']))
   \<and> handler sample_world enrolled_store (post (verify_body good_signature)) =
       finish (json 200 (JObj [(''success'', JBool True), (''status'', JStr ''already_enrolled''),
                               (''message'', JStr ''You are already enrolled in this course.'')]))
         [StoreGet (JStr ''c1'')] enrolled_store"
proof -
  have "get_prop (verify_body good_signature) ''razorpay_signature'' =
     JStr (hmac_sha256_hex sample_world ''secret'' ''order_abc|pay_1'')"
    by (simp add: verify_body_props sample_world_fields sample_hmac_def good_signature_def)
  then show ?thesis
    by (simp only: enrolled_run enrolled_store_course already_enrolled_def simp_thms)
qed

text \<open>
  C2, as the code has it: in a configured backend whose store operations do not throw, for every
  \<^verbatim>\<open>verify_payment\<close> payload of six non-empty strings whose signature verifies and whose
  course exists with \<^verbatim>\<open>enrolledUsers\<close> absent, null or an array that does not hold the user,
  two calls in sequence answer \<^verbatim>\<open>success\<close> and then \<^verbatim>\<open>already_enrolled\<close>; the second call
  only reads the course and leaves the store as the first left it, and exactly one
  enrollment record is appended in all.
\<close>

theorem verify_payment_twice:
  assumes "configured w" and "req_method req = ''POST''"
    and "get_prop (body req) ''action'' = JStr ''verify_payment''"
    and "nonempty_string (get_prop (body req) ''razorpay_payment_id'')"
    and "nonempty_string (get_prop (body req) ''razorpay_order_id'')"
    and "nonempty_string (get_prop (body req) ''razorpay_signature'')"
    and "nonempty_string (get_prop (body req) ''courseId'')"
    and "nonempty_string (get_prop (body req) ''courseTitle'')"
    and "nonempty_string (get_prop (body req) ''userId'')"
    and "RAZORPAY_KEY_SECRET w = Some secret"
    and "get_prop (body req) ''razorpay_signature'' =
            JStr (hmac_sha256_hex w secret
                   (ToString (js w) (get_prop (body req) ''razorpay_order_id'') @ ''|'' @
                    ToString (js w) (get_prop (body req) ''razorpay_payment_id'')))"
    and "\<forall>e. store_fault w e = None"
    and "courses st (get_prop (body req) ''courseId'') = Some d"
    and "d ''enrolledUsers'' = None \<or> d ''enrolledUsers'' = Some JNull
         \<or> (\<exists>xs. d ''enrolledUsers'' = Some (JArr xs) \<and> get_prop (body req) ''userId'' \<notin> set xs)"
  shows "outcome (handler w st req) = json 200 enrolled_now
       \<and> outcome (handler w (final_store (handler w st req)) req) = json 200 already_enrolled
       \<and> effects (handler w (final_store (handler w st req)) req) = [StoreGet (get_prop (body req) ''courseId'')]
       \<and> final_store (handler w (final_store (handler w st req)) req) = final_store (handler w st req)
       \<and> enrollments (final_store (handler w (final_store (handler w st req)) req)) =
           enrollments st @ [enrollment_record d (body req)]
       \<and> length (filter is_add (effects (handler w st req)
                                  @ effects (handler w (final_store (handler w st req)) req))) = 1"
proof -
  let ?cid = "get_prop (body req) ''courseId''"
  let ?uid = "get_prop (body req) ''userId''"
  let ?st2 = "st\<lparr>courses := (courses st)(?cid \<mapsto> d(''enrolledUsers'' \<mapsto> arrayUnion (d ''enrolledUsers'') ?uid)),
                 enrollments := enrollments st @ [enrollment_record d (body req)]\<rparr>"
  note present = assms(4-9) [THEN nonempty_string_truthy]
  have run: "handler w st' req =
      enroll w st' (get_prop (body req) ''razorpay_payment_id'') (get_prop (body req) ''razorpay_order_id'')
        ?cid (get_prop (body req) ''courseTitle'') ?uid" for st'
    unfolding handler_verify_payment [OF assms(1-3)] verify_payment_checked [OF present assms(10)]
    using assms(11) by (simp add: generatedSignature_def)
  have fresh: "js_includes (js w) (js_or (field d ''enrolledUsers'') (JArr [])) ?uid = Inr False"
    by (rule not_enrolled_check [of ?uid d, OF assms(9) assms(14)])
  have first: "handler w st req =
      finish (json 200 enrolled_now)
        [StoreGet ?cid, StoreUpdate ?cid ?uid, StoreAdd (enrollment_record d (body req))] ?st2"
    unfolding run using enroll_fresh [OF assms(12) assms(13) fresh]
    by (simp add: enrollment_record_def)
  have course2: "courses ?st2 ?cid = Some (d(''enrolledUsers'' \<mapsto> arrayUnion (d ''enrolledUsers'') ?uid))"
    by simp
  have second: "handler w ?st2 req = finish (json 200 already_enrolled) [StoreGet ?cid] ?st2"
    unfolding run
    by (rule enroll_found [OF _ course2 enrolled_check [of ?uid, OF assms(9)]]) (simp add: assms(12))
  have fs: "final_store (handler w st req) = ?st2"
    by (simp add: first finish_def)
  show ?thesis
    unfolding fs unfolding first second by (simp add: finish_def)
qed

theorem verify_payment_twice_witness:
  "outcome (handler sample_world sample_store (post (verify_body good_signature))) = json 200 enrolled_now
   \<and> outcome (handler sample_world
        (final_store (handler sample_world sample_store (post (verify_body good_signature))))
        (post (verify_body good_signature))) = json 200 already_enrolled
   \<and> enrollments (final_store (handler sample_world
        (final_store (handler sample_world sample_store (post (verify_body good_signature))))
        (post (verify_body good_signature)))) =
       enrollments sample_store @ [enrollment_record sample_course (verify_body good_signature)]"
proof -
  let ?req = "post (verify_body good_signature)"
  have props:
    "get_prop (body ?req) ''action'' = JStr ''verify_payment''"
    "get_prop (body ?req) ''razorpay_payment_id'' = JStr ''pay_1''"
    "get_prop (body ?req) ''razorpay_order_id'' = JStr ''order_abc''"
    "get_prop (body ?req) ''razorpay_signature'' = JStr good_signature"
    "get_prop (body ?req) ''courseId'' = JStr ''c1''"
    "get_prop (body ?req) ''courseTitle'' = JStr ''Algebra''"
    "get_prop (body ?req) ''userId'' = JStr ''u1''"
    by (simp_all add: post_fields verify_body_props)
  have present:
    "nonempty_string (get_prop (body ?req) ''razorpay_payment_id'')"
    "nonempty_string (get_prop (body ?req) ''razorpay_order_id'')"
    "nonempty_string (get_prop (body ?req) ''razorpay_signature'')"
    "nonempty_string (get_prop (body ?req) ''courseId'')"
    "nonempty_string (get_prop (body ?req) ''courseTitle'')"
    "nonempty_string (get_prop (body ?req) ''userId'')"
    by (simp_all add: post_fields verify_body_props good_signature_def)
  have sig: "get_prop (body ?req) ''razorpay_signature'' =
            JStr (hmac_sha256_hex sample_world ''secret''
                   (ToString (js sample_world) (get_prop (body ?req) ''razorpay_order_id'') @ ''|'' @
                    ToString (js sample_world) (get_prop (body ?req) ''razorpay_payment_id'')))"
    by (simp add: post_fields verify_body_props sample_world_fields sample_hmac_def good_signature_def)
  have c: "courses sample_store (get_prop (body ?req) ''courseId'') = Some sample_course"
    by (simp add: props sample_store_course)
  have m: "sample_course ''enrolledUsers'' = None \<or> sample_course ''enrolledUsers'' = Some JNull
         \<or> (\<exists>xs. sample_course ''enrolledUsers'' = Some (JArr xs) \<and> get_prop (body ?req) ''userId'' \<notin> set xs)"
    by (simp add: sample_store_course)
  have nofault: "\<forall>e. store_fault sample_world e = None"
    by (simp add: sample_world_fields)
  note inst = verify_payment_twice
         [OF configured_sample post_fields(1) props(1) present sample_world_fields(3) sig nofault c m,
          unfolded post_fields]
  from inst show ?thesis by blast
qed

section \<open>The receipt\<close>

text \<open>
  C7: the receipt of every order the handler asks the provider for is \<^verbatim>\<open>rcpt_\<close> followed by
  the clock value in decimal. It is at most 40 characters long for every clock value
  in the range of time values of the language (at most 8.64e15 milliseconds from the
  epoch, either way), and two requests served at distinct clock values get distinct
  receipts.
\<close>

theorem receipt_unique_and_short:
  assumes "ProviderCreate opts1 \<in> set (effects (handler w1 st1 req1))"
    and "ProviderCreate opts2 \<in> set (effects (handler w2 st2 req2))"
    and "\<bar>Date_now w1\<bar> \<le> 8640000000000000"
  shows "opt_receipt opts1 = ''rcpt_'' @ decimal (Date_now w1)
       \<and> length (opt_receipt opts1) \<le> 40
       \<and> (Date_now w1 \<noteq> Date_now w2 \<longrightarrow> opt_receipt opts1 \<noteq> opt_receipt opts2)"
  using handler_provider_call [OF assms(1)] handler_provider_call [OF assms(2)]
    length_receiptId [OF assms(3)] receiptId_inj [of "Date_now w1" "Date_now w2"]
  by (auto simp add: receiptId_def)

theorem receipt_unique_and_short_witness:
  "effects (handler sample_world sample_store (post (create_body (JNum (Fin 500))))) =
     [ProviderCreate (sample_options 1700000000000)]
   \<and> opt_receipt (sample_options 1700000000000) = ''rcpt_1700000000000''
   \<and> length (opt_receipt (sample_options 1700000000000)) \<le> 40
   \<and> opt_receipt (sample_options 1700000000000) \<noteq> opt_receipt (sample_options 1700000000001)"
proof -
  have same: "sample_world\<lparr>Date_now := 1700000000000\<rparr> = sample_world"
    by (simp add: sample_world_def)
  have run1: "effects (handler sample_world sample_store (post (create_body (JNum (Fin 500))))) =
     [ProviderCreate (sample_options 1700000000000)]"
    using sample_order_run [of 1700000000000] by (simp only: same)
  have mem1: "ProviderCreate (sample_options 1700000000000) \<in>
      set (effects (handler sample_world sample_store (post (create_body (JNum (Fin 500))))))"
    by (simp only: run1) simp
  have mem2: "ProviderCreate (sample_options 1700000000001) \<in>
      set (effects (handler (sample_world\<lparr>Date_now := 1700000000001\<rparr>) sample_store
             (post (create_body (JNum (Fin 500))))))"
    by (simp only: sample_order_run) simp
  have bound: "\<bar>Date_now sample_world\<bar> \<le> 8640000000000000"
    by (simp add: sample_world_fields)
  have dec: "decimal (Date_now sample_world) = ''1700000000000''"
    by (simp add: sample_world_fields decimal_def digits.simps digit_char_def)
  have times: "Date_now sample_world \<noteq> Date_now (sample_world\<lparr>Date_now := 1700000000001\<rparr>)"
    by (simp add: sample_world_fields)
  note inst = receipt_unique_and_short [OF mem1 mem2 bound]
  from inst dec have "opt_receipt (sample_options 1700000000000) = ''rcpt_1700000000000''"
    by simp
  moreover from inst have "length (opt_receipt (sample_options 1700000000000)) \<le> 40"
    by blast
  moreover from inst times
  have "opt_receipt (sample_options 1700000000000) \<noteq> opt_receipt (sample_options 1700000000001)"
    by blast
  ultimately show ?thesis using run1 by blast
qed

end
